theory Spec2Isabelle
  imports Complex_Main "HOL-Library.Sublist"
begin

section \<open>Python strings and numeric conversion\<close>

text \<open>
  The three programs (\<^verbatim>\<open>s1.py\<close>, \<^verbatim>\<open>ss1.py\<close>, \<^verbatim>\<open>similarity.py\<close>) work on Python
  \<^verbatim>\<open>str\<close> values. A string is modelled as a \<^typ>\<open>string\<close> whose characters are the
  Unicode code points U+0000 to U+00FF (Latin-1), one \<^typ>\<open>char\<close> per code point.
  A Python float is an IEEE 754 double, modelled by \<open>pyfloat\<close>: a finite double is the
  rational number it denotes, and infinities and not-a-number are constructors. Every
  operation that rounds in Python (\<^verbatim>\<open>float(s)\<close>, a float literal, \<^verbatim>\<open>-\<close>, \<^verbatim>\<open>*\<close>, \<^verbatim>\<open>+\<close>, \<^verbatim>\<open>/\<close>,
  \<^verbatim>\<open>round\<close>) computes the exact rational result and rounds it with \<open>round_double\<close>, the
  rounding to the nearest double with ties to the even significand, as IEEE 754 and
  CPython's correctly rounded conversions do. The sign of a zero is not kept: \<^verbatim>\<open>-0.0\<close> and
  \<^verbatim>\<open>0.0\<close> are equal for every comparison, \<^verbatim>\<open>abs\<close>, \<^verbatim>\<open>is_integer\<close> and \<^verbatim>\<open>int\<close> that the
  programs apply.
\<close>

datatype error = ValueError

datatype pyfloat = Fin rat | PInf | NInf | NaN

function bit_length :: "int \<Rightarrow> int" where
  \<comment> \<open>\<^verbatim>\<open>n.bit_length()\<close> for \<open>n \<ge> 0\<close>\<close>
  "bit_length n = (if n \<le> 0 then 0 else 1 + bit_length (n div 2))"
  by pat_completeness auto
termination
  by (relation "measure nat") auto

declare bit_length.simps [simp del]

definition pow2 :: "int \<Rightarrow> rat" where
  \<comment> \<open>two to the power \<open>e\<close>\<close>
  "pow2 e = (if 0 \<le> e then 2 ^ nat e else 1 / 2 ^ nat (- e))"

definition ilog2 :: "rat \<Rightarrow> int" where
  \<comment> \<open>for \<open>x > 0\<close> the exponent \<open>e\<close> with \<open>2^e \<le> x < 2^(e+1)\<close>: a fraction \<open>p/q\<close> lies between
      \<open>2^(e0-1)\<close> and \<open>2^(e0+1)\<close> for the difference \<open>e0\<close> of the bit lengths\<close>
  "ilog2 x =
     (let p = fst (quotient_of x); q = snd (quotient_of x);
          e0 = bit_length p - bit_length q
      in if pow2 e0 \<le> x then e0 else e0 - 1)"

definition round_half_even :: "rat \<Rightarrow> int" where
  \<comment> \<open>the nearest integer, a tie going to the even one\<close>
  "round_half_even x =
     (let f = \<lfloor>x\<rfloor>; d = x - of_int f
      in if d < 1 / 2 then f else if 1 / 2 < d then f + 1
         else if even f then f else f + 1)"

definition round_double :: "rat \<Rightarrow> pyfloat" where
  \<comment> \<open>the double nearest to \<open>x\<close>. In the binade of exponent \<open>e\<close> doubles are the multiples
      of \<open>2^(e-52)\<close>, below \<open>2^(-1022)\<close> (subnormals) the multiples of \<open>2^(-1074)\<close>; a result of
      magnitude \<open>2^1024\<close> or more is an infinity\<close>
  "round_double x =
     (if x = 0 then Fin 0
      else
        let e = ilog2 \<bar>x\<bar> in
        if 1024 \<le> e then (if 0 < x then PInf else NInf)
        else
          let q = pow2 (max e (- 1022) - 52);
              m = round_half_even (x / q)
          in if e = 1023 \<and> \<bar>m\<bar> = 2 ^ 53 then (if 0 < x then PInf else NInf)
             else Fin (of_int m * q))"

definition nl :: char where
  "nl = CHR 0x0A"

definition isspace :: "char \<Rightarrow> bool" where
  \<comment> \<open>\<^verbatim>\<open>str.isspace\<close> of one character, which is also \<^verbatim>\<open>\s\<close> of \<^verbatim>\<open>re\<close> on \<^verbatim>\<open>str\<close>.\<close>
  "isspace c = (c \<in> set [CHR 0x09, CHR 0x0A, CHR 0x0B, CHR 0x0C, CHR 0x0D,
                          CHR 0x1C, CHR 0x1D, CHR 0x1E, CHR 0x1F, CHR 0x20,
                          CHR 0x85, CHR 0xA0])"

definition strip :: "string \<Rightarrow> string" where
  \<comment> \<open>\<^verbatim>\<open>s.strip()\<close>\<close>
  "strip s = rev (dropWhile isspace (rev (dropWhile isspace s)))"

definition startswith :: "string \<Rightarrow> string \<Rightarrow> bool" where
  \<comment> \<open>\<^verbatim>\<open>s.startswith(p)\<close>\<close>
  "startswith s p = prefix p s"

definition is_sep :: "char \<Rightarrow> bool" where
  \<comment> \<open>the character class \<^verbatim>\<open>[,\s]\<close>\<close>
  "is_sep c = (c = CHR '','' \<or> isspace c)"

fun split_from :: "bool \<Rightarrow> string \<Rightarrow> string \<Rightarrow> string list" where
  \<comment> \<open>scanner of \<^verbatim>\<open>re.split\<close>: \<open>insep\<close> says that the previous character was a separator,
      \<open>cur\<close> is the piece read so far, reversed\<close>
  "split_from insep cur [] = [rev cur]"
| "split_from insep cur (c # cs) =
     (if is_sep c then (if insep then split_from True cur cs
                        else rev cur # split_from True [] cs)
      else split_from False (c # cur) cs)"

definition re_split :: "string \<Rightarrow> string list" where
  \<comment> \<open>\<^verbatim>\<open>re.split(r'[,\s]+', s)\<close>: the pieces between maximal runs of separators; a string
      that begins or ends with a separator yields an empty first or last piece\<close>
  "re_split s = split_from False [] s"

definition is_dec :: "char \<Rightarrow> bool" where
  \<comment> \<open>the decimal digits 0 to 9\<close>
  "is_dec c = (c \<in> set ''0123456789'')"

definition char_isdigit :: "char \<Rightarrow> bool" where
  \<comment> \<open>\<^verbatim>\<open>str.isdigit\<close> of one character: the decimal digits and, in Latin-1, the
      superscript digits U+00B2, U+00B3 and U+00B9\<close>
  "char_isdigit c = (is_dec c \<or> c \<in> set [CHR 0xB2, CHR 0xB3, CHR 0xB9])"

definition isdigit :: "string \<Rightarrow> bool" where
  \<comment> \<open>\<^verbatim>\<open>s.isdigit()\<close>: non-empty and every character a digit\<close>
  "isdigit s = (s \<noteq> [] \<and> list_all char_isdigit s)"

definition digit_val :: "char \<Rightarrow> int" where
  "digit_val c = int (of_char c) - 48"

definition dec_value :: "string \<Rightarrow> int" where
  "dec_value s = foldl (\<lambda>n c. 10 * n + digit_val c) 0 s"

definition py_int :: "string \<Rightarrow> error + int" where
  \<comment> \<open>\<^verbatim>\<open>int(s)\<close> for a string without sign, underscore or blank (every call of the
      sources is guarded by \<^verbatim>\<open>s.isdigit()\<close>): the value of a non-empty string of decimal
      digits, \<^verbatim>\<open>ValueError\<close> otherwise, so also for a superscript digit\<close>
  "py_int s = (if s \<noteq> [] \<and> list_all is_dec s then Inr (dec_value s) else Inl ValueError)"

fun underscores_ok :: "char \<Rightarrow> string \<Rightarrow> bool" where
  \<comment> \<open>an underscore of a numeric literal stands between two digits; \<open>prev\<close> is the
      character before\<close>
  "underscores_ok prev [] = (prev \<noteq> CHR ''_'')"
| "underscores_ok prev (c # cs) =
     (if c = CHR ''_'' then is_dec prev \<and> underscores_ok c cs
      else (prev = CHR ''_'' \<longrightarrow> is_dec c) \<and> underscores_ok c cs)"

definition ascii_lower :: "char \<Rightarrow> char" where
  "ascii_lower c = (if c \<in> set ''ABCDEFGHIJKLMNOPQRSTUVWXYZ''
                    then char_of (of_char c + (32::nat)) else c)"

definition scale10 :: "int \<Rightarrow> int \<Rightarrow> rat" where
  \<comment> \<open>\<open>m\<close> times ten to the power \<open>e\<close>\<close>
  "scale10 m e = (if 0 \<le> e then of_int m * 10 ^ nat e else of_int m / 10 ^ nat (- e))"

definition parse_exponent :: "string \<Rightarrow> error + int" where
  \<comment> \<open>what follows the mantissa: nothing, or \<^verbatim>\<open>e\<close>, an optional sign and digits\<close>
  "parse_exponent s =
     (case s of
        [] \<Rightarrow> Inr 0
      | c # r \<Rightarrow>
          if c = CHR ''e'' \<or> c = CHR ''E'' then
            (case r of
               [] \<Rightarrow> Inl ValueError
             | d # r' \<Rightarrow>
                 if d = CHR ''-'' then
                   (if r' \<noteq> [] \<and> list_all is_dec r' then Inr (- dec_value r') else Inl ValueError)
                 else if d = CHR ''+'' then
                   (if r' \<noteq> [] \<and> list_all is_dec r' then Inr (dec_value r') else Inl ValueError)
                 else (if list_all is_dec r then Inr (dec_value r) else Inl ValueError))
          else Inl ValueError)"

definition parse_unsigned :: "string \<Rightarrow> error + pyfloat" where
  \<comment> \<open>\<^verbatim>\<open>inf\<close>, \<^verbatim>\<open>infinity\<close>, \<^verbatim>\<open>nan\<close> in any letter case, or a decimal literal: digits, an
      optional point and digits (one digit at least), an optional exponent; the value
      of the literal is rounded to the nearest double\<close>
  "parse_unsigned s =
     (let low = map ascii_lower s in
      if low = ''inf'' \<or> low = ''infinity'' then Inr PInf
      else if low = ''nan'' then Inr NaN
      else
        let ip = takeWhile is_dec s; r1 = dropWhile is_dec s;
            hasdot = (r1 \<noteq> [] \<and> hd r1 = CHR ''.'');
            r2 = (if hasdot then tl r1 else r1);
            fp = (if hasdot then takeWhile is_dec r2 else []);
            r3 = (if hasdot then dropWhile is_dec r2 else r2)
        in if ip = [] \<and> fp = [] then Inl ValueError
           else (case parse_exponent r3 of
                   Inl e \<Rightarrow> Inl e
                 | Inr ex \<Rightarrow> Inr (round_double (scale10 (dec_value (ip @ fp)) (ex - int (length fp))))))"

definition negate :: "pyfloat \<Rightarrow> pyfloat" where
  "negate f = (case f of Fin r \<Rightarrow> Fin (- r) | PInf \<Rightarrow> NInf | NInf \<Rightarrow> PInf | NaN \<Rightarrow> NaN)"

definition py_float :: "string \<Rightarrow> error + pyfloat" where
  \<comment> \<open>\<^verbatim>\<open>float(s)\<close>: blanks around the literal are dropped, underscores are allowed between
      digits, one sign may lead\<close>
  "py_float s0 =
     (let s = strip s0 in
      if \<not> underscores_ok (CHR 0x00) s then Inl ValueError
      else
        let t = filter (\<lambda>c. c \<noteq> CHR ''_'') s in
        (case t of
           [] \<Rightarrow> Inl ValueError
         | c # r \<Rightarrow>
             if c = CHR ''-'' then
               (case parse_unsigned r of Inl e \<Rightarrow> Inl e | Inr f \<Rightarrow> Inr (negate f))
             else if c = CHR ''+'' then parse_unsigned r
             else parse_unsigned t))"

definition is_integer :: "pyfloat \<Rightarrow> bool" where
  \<comment> \<open>\<^verbatim>\<open>f.is_integer()\<close>: false for the special values\<close>
  "is_integer f = (case f of Fin r \<Rightarrow> of_int \<lfloor>r\<rfloor> = r | _ \<Rightarrow> False)"

definition int_of_float :: "pyfloat \<Rightarrow> int" where
  \<comment> \<open>\<^verbatim>\<open>int(f)\<close>, called on an integral finite value only\<close>
  "int_of_float f = (case f of Fin r \<Rightarrow> \<lfloor>r\<rfloor> | _ \<Rightarrow> 0)"

definition try_except :: "error + 'a \<Rightarrow> 'a \<Rightarrow> 'a" where
  \<comment> \<open>\<^verbatim>\<open>try: return body\<close> / \<^verbatim>\<open>except: return dflt\<close> with a bare \<^verbatim>\<open>except\<close>\<close>
  "try_except body dflt = (case body of Inl e \<Rightarrow> dflt | Inr v \<Rightarrow> v)"

subsection \<open>\<^verbatim>\<open>s1.py\<close>: \<^verbatim>\<open>safe_int\<close> and \<^verbatim>\<open>is_odd\<close>\<close>

definition safe_int_body :: "string \<Rightarrow> error + int option" where
  \<comment> \<open>the \<^verbatim>\<open>try\<close> block of \<^verbatim>\<open>safe_int\<close>; falling out of it returns \<^verbatim>\<open>None\<close>\<close>
  "safe_int_body v =
     (let s = strip v in
      if isdigit s then (case py_int s of Inl e \<Rightarrow> Inl e | Inr n \<Rightarrow> Inr (Some n))
      else (case py_float s of
              Inl e \<Rightarrow> Inl e
            | Inr f \<Rightarrow> if is_integer f then Inr (Some (int_of_float f)) else Inr None))"

definition safe_int :: "string \<Rightarrow> int option" where
  "safe_int v = try_except (safe_int_body v) None"

definition is_odd :: "int \<Rightarrow> bool" where
  "is_odd n = (n mod 2 \<noteq> 0)"

subsection \<open>\<^verbatim>\<open>ss1.py\<close>: \<^verbatim>\<open>safe_float\<close> and \<^verbatim>\<open>get_numeric_line\<close>\<close>

definition safe_float :: "string \<Rightarrow> pyfloat" where
  "safe_float s = try_except (py_float s) (Fin 0)"

definition get_numeric_line :: "string \<Rightarrow> error + (int \<times> int) option" where
  \<comment> \<open>no \<^verbatim>\<open>try\<close> here: an error of \<^verbatim>\<open>int\<close> leaves the function\<close>
  "get_numeric_line line0 =
     (let line = (if CHR ''$'' \<in> set line0 then takeWhile (\<lambda>c. c \<noteq> CHR ''$'') line0 else line0);
          tokens = filter (\<lambda>t. t \<noteq> []) (re_split (strip line))
      in if length tokens \<ge> 2 then
           (if isdigit (tokens ! 0) \<and> isdigit (tokens ! 1) then
              (case py_int (tokens ! 0) of
                 Inl e \<Rightarrow> Inl e
               | Inr a \<Rightarrow> (case py_int (tokens ! 1) of
                             Inl e \<Rightarrow> Inl e
                           | Inr b \<Rightarrow> Inr (Some (a, b))))
            else Inr None)
         else Inr None)"

section \<open>The extraction engine (\<^verbatim>\<open>s1.py\<close>, \<^verbatim>\<open>extract_odd_components\<close>)\<close>

text \<open>
  The function reads the lines of the input file once and runs three passes over them.
  Every loop of the source moves forward through \<^verbatim>\<open>lines\<close> by an index; the model
  recurses over the lines that remain from the index on. An inner loop over a block
  returns what it computed together with the lines from the index where it stopped.
\<close>

record keep =
  keep_pids :: "int set"
  keep_sec_ids :: "int set"
  keep_mat_ids :: "int set"

definition keep_empty :: keep where
  "keep_empty = \<lparr>keep_pids = {}, keep_sec_ids = {}, keep_mat_ids = {}\<rparr>"

subsection \<open>Pass 1: odd parts and their sections and materials\<close>

definition part_data_line :: "string \<Rightarrow> keep \<Rightarrow> keep" where
  \<comment> \<open>the first line after a \<^verbatim>\<open>*PART\<close> header that is neither comment nor header\<close>
  "part_data_line look k =
     (let tokens = re_split look in
      if length tokens \<ge> 1 then
        (case safe_int (tokens ! 0) of
           None \<Rightarrow> k
         | Some pid \<Rightarrow>
             if is_odd pid then
               let k1 = k\<lparr>keep_pids := insert pid (keep_pids k)\<rparr>;
                   k2 = (if length tokens > 1 then
                           (case safe_int (tokens ! 1) of
                              None \<Rightarrow> k1
                            | Some sid \<Rightarrow> k1\<lparr>keep_sec_ids := insert sid (keep_sec_ids k1)\<rparr>)
                         else k1)
               in (if length tokens > 2 then
                     (case safe_int (tokens ! 2) of
                        None \<Rightarrow> k2
                      | Some mid \<Rightarrow> k2\<lparr>keep_mat_ids := insert mid (keep_mat_ids k2)\<rparr>)
                   else k2)
             else k)
      else k)"

fun part_lookahead :: "nat \<Rightarrow> string list \<Rightarrow> keep \<Rightarrow> keep" where
  \<comment> \<open>\<^verbatim>\<open>for offset in range(1, 5)\<close>: the first argument counts the offsets left, the second
      holds the lines from \<^verbatim>\<open>i + offset\<close> on\<close>
  "part_lookahead 0 ls k = k"
| "part_lookahead (Suc m) [] k = k"
| "part_lookahead (Suc m) (l # ls) k =
     (let look = strip l in
      if startswith look ''*'' then k
      else if startswith look ''$'' then part_lookahead m ls k
      else part_data_line look k)"

fun pass1 :: "string list \<Rightarrow> keep \<Rightarrow> keep" where
  "pass1 [] k = k"
| "pass1 (l # ls) k =
     pass1 ls (if startswith (strip l) ''*PART'' then part_lookahead 4 ls k else k)"

subsection \<open>Pass 2: nodes of the elements of kept parts\<close>

definition element_keywords :: "string list" where
  "element_keywords = [''*ELEMENT_SHELL'', ''*ELEMENT_SOLID'', ''*ELEMENT_BEAM'',
                       ''*ELEMENT_TSHELL'', ''*ELEMENT_DISCRETE'', ''*ELEMENT_MASS'']"

definition startswith_any :: "string \<Rightarrow> string list \<Rightarrow> bool" where
  \<comment> \<open>\<^verbatim>\<open>s.startswith(t)\<close> for a tuple \<^verbatim>\<open>t\<close>\<close>
  "startswith_any s ps = list_ex (startswith s) ps"

definition add_node_tokens :: "string list \<Rightarrow> int set \<Rightarrow> int set" where
  \<comment> \<open>\<^verbatim>\<open>for t in tokens[start_index:]\<close>\<close>
  "add_node_tokens ts N =
     foldl (\<lambda>N t. case safe_int t of None \<Rightarrow> N | Some nid \<Rightarrow> insert nid N) N ts"

definition element_line_nodes :: "bool \<Rightarrow> int set \<Rightarrow> string \<Rightarrow> int set \<Rightarrow> int set" where
  \<comment> \<open>one data line of an element block; \<open>mass\<close> says that the header is \<^verbatim>\<open>*ELEMENT_MASS\<close>\<close>
  "element_line_nodes mass P el_line N =
     (let tokens = re_split el_line in
      if length tokens > 2 then
        (case safe_int (tokens ! 1) of
           None \<Rightarrow> N
         | Some pid \<Rightarrow>
             if pid \<in> P then (if mass then N else add_node_tokens (drop 2 tokens) N)
             else N)
      else N)"

fun element_block_scan :: "bool \<Rightarrow> int set \<Rightarrow> string list \<Rightarrow> int set \<Rightarrow> int set \<times> string list" where
  \<comment> \<open>the loop over \<^verbatim>\<open>j\<close>: the node set and the lines from the final \<^verbatim>\<open>j\<close> on\<close>
  "element_block_scan mass P [] N = (N, [])"
| "element_block_scan mass P (l # ls) N =
     (let el_line = strip l in
      if startswith el_line ''*'' then (N, l # ls)
      else if startswith el_line ''$'' then element_block_scan mass P ls N
      else element_block_scan mass P ls (element_line_nodes mass P el_line N))"

lemma element_block_scan_length:
  "length (snd (element_block_scan mass P ls N)) \<le> length ls"
  by (induction ls arbitrary: N) (auto simp: Let_def le_SucI)

lemma element_block_scan_rest:
  "(N', rest) = element_block_scan mass P ls N \<Longrightarrow> length rest \<le> length ls"
  using element_block_scan_length [of mass P ls N] by (metis snd_conv)

function pass2 :: "int set \<Rightarrow> string list \<Rightarrow> int set \<Rightarrow> int set" where
  "pass2 P [] N = N"
| "pass2 P (l # ls) N =
     (let line = strip l in
      if startswith_any line element_keywords then
        (case element_block_scan (startswith line ''*ELEMENT_MASS'') P ls N of
           (N', rest) \<Rightarrow> pass2 P rest N')
      else pass2 P ls N)"
  by pat_completeness auto
termination
  by (relation "measure (\<lambda>(P, ls, N). length ls)")
     (auto simp: element_block_scan_rest less_Suc_eq_le)

subsection \<open>Pass 3: writing the output\<close>

text \<open>
  Each block loop returns the strings it writes, in order, and the lines from the final
  \<^verbatim>\<open>j\<close> on. The loops over a \<^verbatim>\<open>*PART\<close>, a \<^verbatim>\<open>*SECTION_...\<close> and a \<^verbatim>\<open>*MAT_...\<close>
  block are three copies of one loop in the source, which differ in the set of kept
  identifiers they test; \<open>buffer_block\<close> is that loop, with the set as an argument, and
  returns the buffered lines, the flag and the remaining lines.
\<close>

definition node_line_kept :: "int set \<Rightarrow> string \<Rightarrow> bool" where
  "node_line_kept N node_line =
     (case re_split (strip node_line) of
        [] \<Rightarrow> False
      | t # ts \<Rightarrow> (case safe_int t of None \<Rightarrow> False | Some nid \<Rightarrow> nid \<in> N))"

fun node_block :: "int set \<Rightarrow> string list \<Rightarrow> string list \<times> string list" where
  "node_block N [] = ([], [])"
| "node_block N (l # ls) =
     (if startswith (strip l) ''*'' then ([], l # ls)
      else (case node_block N ls of
              (ws, rest) \<Rightarrow>
                if startswith (strip l) ''$'' then (l # ws, rest)
                else if node_line_kept N l then (l # ws, rest)
                else (ws, rest)))"

definition element_line_kept :: "int set \<Rightarrow> string \<Rightarrow> bool" where
  "element_line_kept P el_line =
     (let tokens = re_split (strip el_line) in
      length tokens > 2 \<and>
      (case safe_int (tokens ! 1) of None \<Rightarrow> False | Some pid \<Rightarrow> pid \<in> P))"

fun element_block :: "int set \<Rightarrow> string list \<Rightarrow> string list \<times> string list" where
  "element_block P [] = ([], [])"
| "element_block P (l # ls) =
     (if startswith (strip l) ''*'' then ([], l # ls)
      else (case element_block P ls of
              (ws, rest) \<Rightarrow>
                if startswith (strip l) ''$'' then (l # ws, rest)
                else if element_line_kept P l then (l # ws, rest)
                else (ws, rest)))"

definition mass_line_kept :: "int set \<Rightarrow> string \<Rightarrow> bool" where
  "mass_line_kept N el_line =
     (let tokens = re_split (strip el_line) in
      length tokens > 1 \<and>
      (case safe_int (tokens ! 1) of None \<Rightarrow> False | Some nid \<Rightarrow> nid \<in> N))"

fun mass_block :: "int set \<Rightarrow> string list \<Rightarrow> string list \<times> string list" where
  "mass_block N [] = ([], [])"
| "mass_block N (l # ls) =
     (if startswith (strip l) ''*'' then ([], l # ls)
      else (case mass_block N ls of
              (ws, rest) \<Rightarrow>
                if startswith (strip l) ''$'' then (l # ws, rest)
                else if mass_line_kept N l then (l # ws, rest)
                else (ws, rest)))"

definition first_id_kept :: "int set \<Rightarrow> string \<Rightarrow> bool" where
  \<comment> \<open>the identifier test of a line of a part, section or material block\<close>
  "first_id_kept ids p_line =
     (case re_split (strip p_line) of
        [] \<Rightarrow> False
      | t # ts \<Rightarrow> (case safe_int t of None \<Rightarrow> False | Some pid \<Rightarrow> pid \<in> ids))"

fun buffer_block :: "int set \<Rightarrow> string list \<Rightarrow> bool \<Rightarrow> string list \<times> bool \<times> string list" where
  "buffer_block ids [] is_target = ([], is_target, [])"
| "buffer_block ids (l # ls) is_target =
     (if startswith (strip l) ''*'' then ([], is_target, l # ls)
      else (case buffer_block ids ls
                   (if \<not> startswith (strip l) ''$'' \<and> \<not> is_target
                    then first_id_kept ids l else is_target) of
              (buf, target, rest) \<Rightarrow> (l # buf, target, rest)))"

definition section_keywords :: "string list" where
  "section_keywords = [''*SECTION_SHELL'', ''*SECTION_BEAM'', ''*SECTION_SOLID'',
                       ''*SECTION_DISCRETE'']"

lemma node_block_length:
  "node_block N ls = (ws, rest) \<Longrightarrow> length rest \<le> length ls"
  by (induction ls arbitrary: ws rest) (auto split: prod.splits if_splits simp: le_SucI)

lemma element_block_length:
  "element_block P ls = (ws, rest) \<Longrightarrow> length rest \<le> length ls"
  by (induction ls arbitrary: ws rest) (auto split: prod.splits if_splits simp: le_SucI)

lemma mass_block_length:
  "mass_block N ls = (ws, rest) \<Longrightarrow> length rest \<le> length ls"
  by (induction ls arbitrary: ws rest) (auto split: prod.splits if_splits simp: le_SucI)

lemma buffer_block_length:
  "buffer_block ids ls t = (buf, target, rest) \<Longrightarrow> length rest \<le> length ls"
  by (induction ls arbitrary: t buf target rest) (auto split: prod.splits if_splits simp: le_SucI)

lemma node_block_rest:
  "(ws, rest) = node_block N ls \<Longrightarrow> length rest \<le> length ls"
  by (rule node_block_length [OF sym])

lemma element_block_rest:
  "(ws, rest) = element_block P ls \<Longrightarrow> length rest \<le> length ls"
  by (rule element_block_length [OF sym])

lemma mass_block_rest:
  "(ws, rest) = mass_block N ls \<Longrightarrow> length rest \<le> length ls"
  by (rule mass_block_length [OF sym])

lemma buffer_block_rest:
  "(buf, target, rest) = buffer_block ids ls t \<Longrightarrow> length rest \<le> length ls"
  by (rule buffer_block_length [OF sym])

function pass3 :: "keep \<Rightarrow> int set \<Rightarrow> string list \<Rightarrow> string list" where
  "pass3 k N [] = []"
| "pass3 k N (line # ls) =
     (let line_strip = strip line in
      if startswith line_strip ''*NODE'' then
        (case node_block N ls of (ws, rest) \<Rightarrow> line # ws @ pass3 k N rest)
      else if startswith_any line_strip element_keywords
              \<and> \<not> startswith line_strip ''*ELEMENT_MASS'' then
        (case element_block (keep_pids k) ls of (ws, rest) \<Rightarrow> line # ws @ pass3 k N rest)
      else if startswith line_strip ''*ELEMENT_MASS'' then
        (case mass_block N ls of (ws, rest) \<Rightarrow> line # ws @ pass3 k N rest)
      else if startswith line_strip ''*PART'' then
        (case buffer_block (keep_pids k) ls False of
           (buf, is_target_part, rest) \<Rightarrow>
             (if is_target_part then line # buf else []) @ pass3 k N rest)
      else if startswith_any line_strip section_keywords then
        (case buffer_block (keep_sec_ids k) ls False of
           (buf, is_target_sec, rest) \<Rightarrow>
             (if is_target_sec then line # buf else []) @ pass3 k N rest)
      else if startswith line_strip ''*MAT_'' then
        (case buffer_block (keep_mat_ids k) ls False of
           (buf, is_target_mat, rest) \<Rightarrow>
             (if is_target_mat then line # buf else []) @ pass3 k N rest)
      else pass3 k N ls)"
  by pat_completeness auto
termination
  by (relation "measure (\<lambda>(k, N, ls). length ls)")
     (auto simp: less_Suc_eq_le
           dest: node_block_rest element_block_rest mass_block_rest buffer_block_rest)

subsection \<open>The whole function\<close>

definition header_lines :: "string \<Rightarrow> string list" where
  \<comment> \<open>the three strings written before the loop; \<open>name\<close> is
      \<^verbatim>\<open>os.path.basename(input_file)\<close>\<close>
  "header_lines name =
     [''*KEYWORD'' @ [nl],
      ''$ Extracted Odd Components from '' @ name @ [nl],
      ''$ Proper DYNA File for Visualization'' @ [nl]]"

definition extract_lines :: "string \<Rightarrow> string list \<Rightarrow> string list option" where
  \<comment> \<open>\<^verbatim>\<open>extract_odd_components\<close> on the list \<^verbatim>\<open>lines\<close>: the strings written to the output
      file in order, or \<open>None\<close> when the function returns before it opens the output\<close>
  "extract_lines name lines =
     (let k = pass1 lines keep_empty in
      if keep_pids k = {} then None
      else
        let N = pass2 (keep_pids k) lines {} in
        Some (header_lines name @ pass3 k N lines @ [''*END'' @ [nl]]))"

fun readlines :: "string \<Rightarrow> string \<Rightarrow> string list" where
  \<comment> \<open>\<^verbatim>\<open>f.readlines()\<close> on the decoded text: every line keeps its newline, the last line
      may lack one; the first argument is the line read so far, reversed\<close>
  "readlines cur [] = (if cur = [] then [] else [rev cur])"
| "readlines cur (c # cs) =
     (if c = nl then rev (c # cur) # readlines [] cs else readlines (c # cur) cs)"

definition extract_odd_components :: "string \<Rightarrow> string \<Rightarrow> string option" where
  \<comment> \<open>from the text of the input file to the text of the output file\<close>
  "extract_odd_components name text =
     map_option concat (extract_lines name (readlines [] text))"

section \<open>The batch diff engine (\<^verbatim>\<open>ss1.py\<close>)\<close>

text \<open>
  A Python \<^verbatim>\<open>dict\<close> is an association list in insertion order with one entry per key:
  \<open>dict_set\<close> is the assignment \<^verbatim>\<open>d[k] = v\<close>, which replaces the value of a key that is
  present and appends a new key otherwise.
\<close>

type_synonym ('k, 'v) dict = "('k \<times> 'v) list"

fun dict_set :: "('k, 'v) dict \<Rightarrow> 'k \<Rightarrow> 'v \<Rightarrow> ('k, 'v) dict" where
  "dict_set [] k v = [(k, v)]"
| "dict_set ((k', v') # d) k v = (if k' = k then (k', v) # d else (k', v') # dict_set d k v)"

definition dict_get :: "('k, 'v) dict \<Rightarrow> 'k \<Rightarrow> 'v option" where
  "dict_get d k = map_of d k"

definition dict_keys :: "('k, 'v) dict \<Rightarrow> 'k list" where
  "dict_keys d = map fst d"

record part =
  name :: string
  secid :: int
  pvalue :: pyfloat

record data =
  parts :: "(int, part) dict"
  sections :: "(int, pyfloat) dict"

definition data_empty :: data where
  "data_empty = \<lparr>parts = [], sections = []\<rparr>"

definition char_upper :: "char \<Rightarrow> string" where
  \<comment> \<open>\<^verbatim>\<open>c.upper()\<close> in Latin-1. The capitals of U+00B5 and U+00FF lie outside Latin-1;
      they are left as they are, which agrees with Python wherever the result is only
      compared with an ASCII keyword, as it is here.\<close>
  "char_upper c =
     (let n = (of_char c :: nat) in
      if 97 \<le> n \<and> n \<le> 122 then [char_of (n - 32)]
      else if n = 223 then ''SS''
      else if 224 \<le> n \<and> n \<le> 254 \<and> n \<noteq> 247 then [char_of (n - 32)]
      else [c])"

definition upper :: "string \<Rightarrow> string" where
  "upper s = concat (map char_upper s)"

definition first_word :: "string \<Rightarrow> string" where
  \<comment> \<open>\<^verbatim>\<open>s.split()[0]\<close> for a non-empty \<^verbatim>\<open>s\<close> that does not begin with a blank\<close>
  "first_word s = takeWhile (\<lambda>c. \<not> isspace c) s"

fun part_scan :: "nat \<Rightarrow> string \<Rightarrow> string list \<Rightarrow> (int \<times> int) option \<times> string
                    \<Rightarrow> error + ((int \<times> int) option \<times> string)" where
  \<comment> \<open>the look-ahead of \<^verbatim>\<open>*PART\<close>: \<open>offset\<close>, the line before \<^verbatim>\<open>lines[i+offset]\<close>, the lines
      from \<^verbatim>\<open>i+offset\<close> on, and the pair of \<^verbatim>\<open>(found_pid, found_secid)\<close> and \<^verbatim>\<open>part_name\<close>\<close>
  "part_scan offset prev [] st = Inr st"
| "part_scan offset prev (l # ls) (found, part_name) =
     (if offset > 4 then Inr (found, part_name)
      else
        let look_line = strip l in
        if startswith look_line ''*'' then Inr (found, part_name)
        else if startswith look_line ''$'' then part_scan (offset + 1) l ls (found, part_name)
        else
          (case get_numeric_line look_line of
             Inl e \<Rightarrow> Inl e
           | Inr (Some ids) \<Rightarrow>
               Inr (Some ids,
                    if offset > 1 then
                      (let prev_line = strip prev in
                       if \<not> startswith prev_line ''$'' then prev_line else part_name)
                    else part_name)
           | Inr None \<Rightarrow>
               part_scan (offset + 1) l ls
                 (found, if offset = 1 then look_line else part_name)))"

fun thickness_scan :: "string list \<Rightarrow> pyfloat option" where
  \<comment> \<open>the \<^verbatim>\<open>while next_data_idx < n\<close> loop: the value stored for the section, if any\<close>
  "thickness_scan [] = None"
| "thickness_scan (l # ls) =
     (let nl = strip l in
      if startswith nl ''*'' then None
      else if nl = [] \<or> startswith nl ''$'' then thickness_scan ls
      else (case re_split nl of [] \<Rightarrow> None | t # ts \<Rightarrow> Some (safe_float t)))"

fun section_scan :: "nat \<Rightarrow> string list \<Rightarrow> (int, pyfloat) dict \<Rightarrow> error + (int, pyfloat) dict" where
  \<comment> \<open>the look-ahead of \<^verbatim>\<open>*SECTION_SHELL\<close> and of \<^verbatim>\<open>*SECTION_BEAM\<close> (the same code twice)\<close>
  "section_scan offset [] secs = Inr secs"
| "section_scan offset (l0 # ls) secs =
     (if offset > 4 then Inr secs
      else
        let l = strip l0 in
        if startswith l ''*'' then Inr secs
        else if startswith l ''$'' then section_scan (offset + 1) ls secs
        else
          (case re_split l of
             [] \<Rightarrow> section_scan (offset + 1) ls secs
           | t # ts \<Rightarrow>
               if isdigit t then
                 (case py_int t of
                    Inl e \<Rightarrow> Inl e
                  | Inr sid \<Rightarrow>
                      (case thickness_scan ls of
                         None \<Rightarrow> Inr secs
                       | Some val \<Rightarrow> Inr (dict_set secs sid val)))
               else section_scan (offset + 1) ls secs))"

fun parse_lines :: "string list \<Rightarrow> data \<Rightarrow> error + data" where
  \<comment> \<open>\<^verbatim>\<open>for i, line in enumerate(lines)\<close>\<close>
  "parse_lines [] d = Inr d"
| "parse_lines (line # ls) d =
     (let line_strip = strip line in
      if line_strip = [] \<or> startswith line_strip ''$'' then parse_lines ls d
      else if startswith line_strip ''*'' then
        (let keyword = upper (first_word line_strip) in
         if startswith keyword ''*PART'' then
           (case part_scan 1 line ls (None, ''Unknown'') of
              Inl e \<Rightarrow> Inl e
            | Inr (None, part_name) \<Rightarrow> parse_lines ls d
            | Inr (Some (found_pid, found_secid), part_name) \<Rightarrow>
                parse_lines ls
                  (d\<lparr>parts := dict_set (parts d) found_pid
                        \<lparr>name = part_name, secid = found_secid, pvalue = Fin 0\<rparr>\<rparr>))
         else if startswith keyword ''*SECTION_SHELL'' then
           (case section_scan 1 ls (sections d) of
              Inl e \<Rightarrow> Inl e
            | Inr secs \<Rightarrow> parse_lines ls (d\<lparr>sections := secs\<rparr>))
         else if startswith keyword ''*SECTION_BEAM'' then
           (case section_scan 1 ls (sections d) of
              Inl e \<Rightarrow> Inl e
            | Inr secs \<Rightarrow> parse_lines ls (d\<lparr>sections := secs\<rparr>))
         else parse_lines ls d)
      else parse_lines ls d)"

definition link_sections :: "data \<Rightarrow> data" where
  \<comment> \<open>\<^verbatim>\<open>for pid, p in data["parts"].items()\<close>\<close>
  "link_sections d =
     d\<lparr>parts := map (\<lambda>(pid, p). (pid, (case dict_get (sections d) (secid p) of
                                           None \<Rightarrow> p
                                         | Some v \<Rightarrow> p\<lparr>pvalue := v\<rparr>))) (parts d)\<rparr>"

definition parse_deep_search :: "string list \<Rightarrow> error + data" where
  \<comment> \<open>on the lines of the file; an error of \<^verbatim>\<open>int\<close> leaves the function\<close>
  "parse_deep_search lines =
     (case parse_lines lines data_empty of Inl e \<Rightarrow> Inl e | Inr d \<Rightarrow> Inr (link_sections d))"

definition worker :: "string list \<Rightarrow> data option" where
  \<comment> \<open>\<^verbatim>\<open>worker\<close>: the second component of its result, \<^verbatim>\<open>None\<close> after an exception\<close>
  "worker lines = (case parse_deep_search lines of Inl e \<Rightarrow> None | Inr d \<Rightarrow> Some d)"

subsection \<open>Comparison of two parsed files\<close>

definition py_sub :: "pyfloat \<Rightarrow> pyfloat \<Rightarrow> pyfloat" where
  \<comment> \<open>\<^verbatim>\<open>a - b\<close>: the exact difference, rounded\<close>
  "py_sub a b =
     (case (a, b) of
        (Fin x, Fin y) \<Rightarrow> round_double (x - y)
      | (NaN, _) \<Rightarrow> NaN
      | (_, NaN) \<Rightarrow> NaN
      | (PInf, PInf) \<Rightarrow> NaN
      | (NInf, NInf) \<Rightarrow> NaN
      | (PInf, _) \<Rightarrow> PInf
      | (NInf, _) \<Rightarrow> NInf
      | (Fin x, PInf) \<Rightarrow> NInf
      | (Fin x, NInf) \<Rightarrow> PInf)"

definition py_abs :: "pyfloat \<Rightarrow> pyfloat" where
  "py_abs a = (case a of Fin x \<Rightarrow> Fin \<bar>x\<bar> | PInf \<Rightarrow> PInf | NInf \<Rightarrow> PInf | NaN \<Rightarrow> NaN)"

definition py_gt :: "pyfloat \<Rightarrow> pyfloat \<Rightarrow> bool" where
  \<comment> \<open>\<^verbatim>\<open>a > b\<close>: false whenever one side is not a number\<close>
  "py_gt a b =
     (case (a, b) of
        (Fin x, Fin y) \<Rightarrow> x > y
      | (NaN, _) \<Rightarrow> False
      | (_, NaN) \<Rightarrow> False
      | (PInf, PInf) \<Rightarrow> False
      | (PInf, _) \<Rightarrow> True
      | (NInf, _) \<Rightarrow> False
      | (Fin x, PInf) \<Rightarrow> False
      | (Fin x, NInf) \<Rightarrow> True)"

definition TOLERANCE :: pyfloat where
  \<comment> \<open>the float literal \<^verbatim>\<open>0.001\<close> of \<^verbatim>\<open>CONFIG\<close>\<close>
  "TOLERANCE = round_double (1 / 1000)"

definition flagged :: "pyfloat \<Rightarrow> pyfloat \<Rightarrow> pyfloat \<Rightarrow> bool" where
  \<comment> \<open>the two nested \<^verbatim>\<open>if\<close>s of the comparison loop of \<^verbatim>\<open>main\<close>\<close>
  "flagged tol val_a val_b =
     (py_gt (py_abs (py_sub val_a val_b)) tol \<and> (py_gt val_a (Fin 0) \<or> py_gt val_b (Fin 0)))"

definition common_pids :: "data \<Rightarrow> data \<Rightarrow> int list" where
  \<comment> \<open>the set of the keys of both \<^verbatim>\<open>parts\<close> dictionaries. Python leaves the iteration
      order of a set open; the model lists it in the order of the first file.\<close>
  "common_pids data_a data_b =
     filter (\<lambda>pid. pid \<in> set (dict_keys (parts data_b))) (dict_keys (parts data_a))"

definition changes :: "pyfloat \<Rightarrow> data \<Rightarrow> data \<Rightarrow> (int \<times> string \<times> pyfloat \<times> pyfloat) list" where
  "changes tol data_a data_b =
     concat (map (\<lambda>pid.
        (case (dict_get (parts data_a) pid, dict_get (parts data_b) pid) of
           (Some pa, Some pb) \<Rightarrow>
             if flagged tol (pvalue pa) (pvalue pb)
             then [(pid, name pa, pvalue pa, pvalue pb)] else []
         | _ \<Rightarrow> [])) (common_pids data_a data_b))"

section \<open>Properties of the batch diff engine\<close>

lemma dict_get_in_keys: "(\<exists>v. dict_get d k = Some v) \<longleftrightarrow> k \<in> set (dict_keys d)"
  by (auto simp: dict_get_def dict_keys_def map_of_eq_Some_iff weak_map_of_SomeI dest: map_of_SomeD)
     (metis domI domIff image_iff map_of_eq_None_iff not_None_eq prod.collapse fst_conv)

text \<open>
  Claim C2, as the code has it. A Part id that both files define is reported as changed
  exactly when \<^verbatim>\<open>abs(val_a - val_b)\<close> is strictly greater than the tolerance and at least
  one of the two values is strictly positive (\<^verbatim>\<open>val_a > 0 or val_b > 0\<close>). The comparisons
  are Python's, so they are false for a value that is not a number.
\<close>

theorem diff_flagging:
  "(pid, nm, va, vb) \<in> set (changes tol a b) \<longleftrightarrow>
     (\<exists>pa pb. dict_get (parts a) pid = Some pa \<and> dict_get (parts b) pid = Some pb \<and>
        nm = name pa \<and> va = pvalue pa \<and> vb = pvalue pb \<and>
        py_gt (py_abs (py_sub va vb)) tol \<and> (py_gt va (Fin 0) \<or> py_gt vb (Fin 0)))"
proof
  assume "(pid, nm, va, vb) \<in> set (changes tol a b)"
  then show "\<exists>pa pb. dict_get (parts a) pid = Some pa \<and> dict_get (parts b) pid = Some pb \<and>
        nm = name pa \<and> va = pvalue pa \<and> vb = pvalue pb \<and>
        py_gt (py_abs (py_sub va vb)) tol \<and> (py_gt va (Fin 0) \<or> py_gt vb (Fin 0))"
    by (auto simp: changes_def flagged_def split: option.splits if_splits) metis+
next
  assume "\<exists>pa pb. dict_get (parts a) pid = Some pa \<and> dict_get (parts b) pid = Some pb \<and>
        nm = name pa \<and> va = pvalue pa \<and> vb = pvalue pb \<and>
        py_gt (py_abs (py_sub va vb)) tol \<and> (py_gt va (Fin 0) \<or> py_gt vb (Fin 0))"
  then obtain pa pb where h: "dict_get (parts a) pid = Some pa" "dict_get (parts b) pid = Some pb"
     "nm = name pa" "va = pvalue pa" "vb = pvalue pb" "flagged tol va vb"
    by (auto simp: flagged_def)
  have "pid \<in> set (common_pids a b)"
    using h(1,2) dict_get_in_keys [of "parts a" pid] dict_get_in_keys [of "parts b" pid]
    by (auto simp: common_pids_def)
  with h show "(pid, nm, va, vb) \<in> set (changes tol a b)"
    by (auto simp: changes_def intro!: bexI [of _ pid])
qed

text \<open>
  The boundary example of the specification: thickness 2.000 against 2.0011 with the
  tolerance 0.001 is reported.
\<close>

theorem diff_flagging_witness:
  "(1, ''Unknown'', safe_float ''2.000'', safe_float ''2.0011'') \<in>
     set (changes TOLERANCE
            \<lparr>parts = [(1, \<lparr>name = ''Unknown'', secid = 10, pvalue = safe_float ''2.000''\<rparr>)],
             sections = [(10, safe_float ''2.000'')]\<rparr>
            \<lparr>parts = [(1, \<lparr>name = ''Unknown'', secid = 10, pvalue = safe_float ''2.0011''\<rparr>)],
             sections = [(10, safe_float ''2.0011'')]\<rparr>)"
proof -
  have g: "py_gt (py_abs (py_sub (safe_float ''2.000'') (safe_float ''2.0011''))) TOLERANCE"
    by code_simp
  have p: "py_gt (safe_float ''2.000'') (Fin 0)"
    by code_simp
  from g p diff_flagging [of 1 "''Unknown''" "safe_float ''2.000''" "safe_float ''2.0011''" TOLERANCE
     "\<lparr>parts = [(1, \<lparr>name = ''Unknown'', secid = 10, pvalue = safe_float ''2.000''\<rparr>)],
       sections = [(10, safe_float ''2.000'')]\<rparr>"
     "\<lparr>parts = [(1, \<lparr>name = ''Unknown'', secid = 10, pvalue = safe_float ''2.0011''\<rparr>)],
       sections = [(10, safe_float ''2.0011'')]\<rparr>"]
  show ?thesis by (simp add: dict_get_def)
qed

text \<open>
  The comparison is made in double arithmetic. The thicknesses 4.001 and 4.0 are
  reported, because the double nearest to 4.001 lies above it and the difference of the
  two doubles exceeds the double nearest to 0.001; the thicknesses 2.0010000000000001 and
  2.0 are not, because that literal is rounded to the double below 2.001; 0.001 and
  -1e-20 are not, because their difference is rounded to 0.001; and a difference of
  0.0005 is not reported.
\<close>

lemma diff_flagging_rounding:
  "flagged TOLERANCE (safe_float ''4.001'') (safe_float ''4.0'')"
  "\<not> flagged TOLERANCE (safe_float ''2.0010000000000001'') (safe_float ''2.0'')"
  "\<not> flagged TOLERANCE (safe_float ''0.001'') (safe_float ''-1e-20'')"
  "\<not> flagged TOLERANCE (safe_float ''2.0005'') (safe_float ''2.000'')"
  by code_simp+

text \<open>
  Claim C2 as stated fails. The file with the lines \<^verbatim>\<open>*PART\<close>, \<^verbatim>\<open>1 10\<close>,
  \<^verbatim>\<open>*SECTION_SHELL\<close>, \<^verbatim>\<open>10\<close>, \<^verbatim>\<open>-1.0\<close> gives Part 1 the value -1.0, the same file with
  \<^verbatim>\<open>0.0\<close> as its last line gives it 0.0. The values differ by more than the tolerance and
  one of them is not zero, yet nothing is reported, since neither is positive.
\<close>

theorem diff_flagging_nonzero_counterexample:
  "worker [''*PART'', ''1 10'', ''*SECTION_SHELL'', ''10'', ''-1.0''] =
     Some \<lparr>parts = [(1, \<lparr>name = ''Unknown'', secid = 10, pvalue = Fin (- 1)\<rparr>)],
           sections = [(10, Fin (- 1))]\<rparr> \<and>
   worker [''*PART'', ''1 10'', ''*SECTION_SHELL'', ''10'', ''0.0''] =
     Some \<lparr>parts = [(1, \<lparr>name = ''Unknown'', secid = 10, pvalue = Fin 0\<rparr>)],
           sections = [(10, Fin 0)]\<rparr> \<and>
   py_gt (py_abs (py_sub (Fin (- 1)) (Fin 0))) TOLERANCE \<and>
   Fin (- 1) \<noteq> Fin 0 \<and>
   changes TOLERANCE
     \<lparr>parts = [(1, \<lparr>name = ''Unknown'', secid = 10, pvalue = Fin (- 1)\<rparr>)],
      sections = [(10, Fin (- 1))]\<rparr>
     \<lparr>parts = [(1, \<lparr>name = ''Unknown'', secid = 10, pvalue = Fin 0\<rparr>)],
      sections = [(10, Fin 0)]\<rparr> = []"
  by code_simp

section \<open>Identifiers admitted by the conversion functions\<close>

lemma digit_val_nonneg: "is_dec c \<Longrightarrow> 0 \<le> digit_val c"
  by (auto simp: is_dec_def digit_val_def)

lemma foldl_dec_nonneg:
  "list_all is_dec s \<Longrightarrow> 0 \<le> n \<Longrightarrow> 0 \<le> foldl (\<lambda>n c. 10 * n + digit_val c) n s"
  by (induction s arbitrary: n) (auto simp: digit_val_nonneg)

lemma py_int_nonneg: "py_int s = Inr n \<Longrightarrow> 0 \<le> n"
  by (auto simp: py_int_def dec_value_def foldl_dec_nonneg split: if_splits)

lemma get_numeric_line_nonneg:
  "get_numeric_line l = Inr (Some (a, b)) \<Longrightarrow> 0 \<le> a \<and> 0 \<le> b"
  by (auto simp: get_numeric_line_def Let_def py_int_nonneg split: if_splits sum.splits)

lemma part_scan_nonneg:
  "part_scan offset prev ls (found, pn) = Inr (Some (a, b), pn') \<Longrightarrow>
   (\<forall>x y. found = Some (x, y) \<longrightarrow> 0 \<le> x \<and> 0 \<le> y) \<Longrightarrow> 0 \<le> a \<and> 0 \<le> b"
proof (induction ls arbitrary: offset prev found pn)
  case Nil
  then show ?case by simp
next
  case (Cons l ls)
  show ?case
  proof (cases "offset > 4 \<or> startswith (strip l) ''*''")
    case True
    with Cons.prems show ?thesis by (auto simp: Let_def split: if_splits)
  next
    case False
    note nf = this
    show ?thesis
    proof (cases "startswith (strip l) ''$''")
      case True
      with nf Cons.prems have "part_scan (offset + 1) l ls (found, pn) = Inr (Some (a, b), pn')"
        by (simp add: Let_def)
      from Cons.IH [OF this Cons.prems(2)] show ?thesis .
    next
      case False
      show ?thesis
      proof (cases "get_numeric_line (strip l)")
        case (Inl e)
        with nf False Cons.prems show ?thesis by (simp add: Let_def)
      next
        case (Inr r)
        show ?thesis
        proof (cases r)
          case None
          with Inr nf False Cons.prems
          have "part_scan (offset + 1) l ls (found, if offset = 1 then strip l else pn) = Inr (Some (a, b), pn')"
            by (simp add: Let_def)
          from Cons.IH [OF this Cons.prems(2)] show ?thesis .
        next
          case (Some ids)
          with Inr nf False Cons.prems have "ids = (a, b)" by (simp add: Let_def)
          with Inr Some show ?thesis using get_numeric_line_nonneg by simp
        qed
      qed
    qed
  qed
qed

lemma dict_keys_set: "set (dict_keys (dict_set d k v)) = insert k (set (dict_keys d))"
  by (induction d) (force simp: dict_keys_def)+

lemma dict_set_values: "(k', v') \<in> set (dict_set d k v) \<Longrightarrow> (k', v') \<in> set d \<or> (k' = k \<and> v' = v)"
  by (induction d) (auto split: if_splits)

lemma section_scan_nonneg:
  "section_scan offset ls secs = Inr secs' \<Longrightarrow> \<forall>k \<in> set (dict_keys secs). 0 \<le> k \<Longrightarrow>
   \<forall>k \<in> set (dict_keys secs'). 0 \<le> k"
  by (induction offset ls secs rule: section_scan.induct)
     (auto simp: Let_def dict_keys_set py_int_nonneg split: if_splits list.splits sum.splits option.splits)

definition ids_nonneg :: "data \<Rightarrow> bool" where
  "ids_nonneg d = ((\<forall>(pid, p) \<in> set (parts d). 0 \<le> pid \<and> 0 \<le> secid p) \<and>
                   (\<forall>k \<in> set (dict_keys (sections d)). 0 \<le> k))"

lemma ids_nonneg_set_part:
  "ids_nonneg d \<Longrightarrow> 0 \<le> pid \<Longrightarrow> 0 \<le> sid \<Longrightarrow>
   ids_nonneg (d\<lparr>parts := dict_set (parts d) pid \<lparr>name = pn, secid = sid, pvalue = v\<rparr>\<rparr>)"
  by (auto simp: ids_nonneg_def dest!: dict_set_values)

lemma parse_lines_skip:
  "strip line = [] \<or> startswith (strip line) ''$'' \<or> \<not> startswith (strip line) ''*'' \<Longrightarrow>
   parse_lines (line # ls) d = parse_lines ls d"
  by (auto simp: Let_def)

lemma parse_lines_part:
  "\<not> (strip line = [] \<or> startswith (strip line) ''$'' \<or> \<not> startswith (strip line) ''*'') \<Longrightarrow>
   startswith (upper (first_word (strip line))) ''*PART'' \<Longrightarrow>
   parse_lines (line # ls) d =
     (case part_scan 1 line ls (None, ''Unknown'') of
        Inl e \<Rightarrow> Inl e
      | Inr (None, part_name) \<Rightarrow> parse_lines ls d
      | Inr (Some (found_pid, found_secid), part_name) \<Rightarrow>
          parse_lines ls
            (d\<lparr>parts := dict_set (parts d) found_pid
                  \<lparr>name = part_name, secid = found_secid, pvalue = Fin 0\<rparr>\<rparr>))"
  by (simp add: Let_def)

lemma parse_lines_section:
  "\<not> (strip line = [] \<or> startswith (strip line) ''$'' \<or> \<not> startswith (strip line) ''*'') \<Longrightarrow>
   \<not> startswith (upper (first_word (strip line))) ''*PART'' \<Longrightarrow>
   startswith (upper (first_word (strip line))) ''*SECTION_SHELL''
     \<or> startswith (upper (first_word (strip line))) ''*SECTION_BEAM'' \<Longrightarrow>
   parse_lines (line # ls) d =
     (case section_scan 1 ls (sections d) of
        Inl e \<Rightarrow> Inl e
      | Inr secs \<Rightarrow> parse_lines ls (d\<lparr>sections := secs\<rparr>))"
  by (auto simp: Let_def)

lemma parse_lines_other:
  "\<not> startswith (upper (first_word (strip line))) ''*PART'' \<Longrightarrow>
   \<not> startswith (upper (first_word (strip line))) ''*SECTION_SHELL'' \<Longrightarrow>
   \<not> startswith (upper (first_word (strip line))) ''*SECTION_BEAM'' \<Longrightarrow>
   parse_lines (line # ls) d = parse_lines ls d"
  by (auto simp: Let_def)

lemma parse_lines_nonneg:
  "parse_lines ls d = Inr d' \<Longrightarrow> ids_nonneg d \<Longrightarrow> ids_nonneg d'"
proof (induction ls arbitrary: d)
  case Nil
  then show ?case by simp
next
  case (Cons line ls)
  let ?kw = "upper (first_word (strip line))"
  show ?case
  proof (cases "strip line = [] \<or> startswith (strip line) ''$'' \<or> \<not> startswith (strip line) ''*''")
    case True
    from parse_lines_skip [OF True] Cons.prems(1) have "parse_lines ls d = Inr d'" by simp
    from Cons.IH [OF this Cons.prems(2)] show ?thesis .
  next
    case False
    note hdr = this
    show ?thesis
    proof (cases "startswith ?kw ''*PART''")
      case True
      note eq = parse_lines_part [OF hdr True, of ls d]
      show ?thesis
      proof (cases "part_scan 1 line ls (None, ''Unknown'')")
        case (Inl e)
        with eq Cons.prems(1) show ?thesis by simp
      next
        case (Inr r)
        obtain found pn where r: "r = (found, pn)" by (cases r)
        show ?thesis
        proof (cases found)
          case None
          with eq Inr r Cons.prems(1) have "parse_lines ls d = Inr d'" by simp
          from Cons.IH [OF this Cons.prems(2)] show ?thesis .
        next
          case (Some ids)
          obtain a b where ids: "ids = (a, b)" by (cases ids)
          from Inr r Some ids have "0 \<le> a \<and> 0 \<le> b"
            using part_scan_nonneg [of 1 line ls None "''Unknown''" a b pn] by simp
          then have "ids_nonneg (d\<lparr>parts := dict_set (parts d) a \<lparr>name = pn, secid = b, pvalue = Fin 0\<rparr>\<rparr>)"
            using Cons.prems(2) by (simp add: ids_nonneg_set_part)
          moreover have "parse_lines ls (d\<lparr>parts := dict_set (parts d) a \<lparr>name = pn, secid = b, pvalue = Fin 0\<rparr>\<rparr>) = Inr d'"
            using eq Inr r Some ids Cons.prems(1) by simp
          ultimately show ?thesis using Cons.IH by blast
        qed
      qed
    next
      case False
      note np = this
      show ?thesis
      proof (cases "startswith ?kw ''*SECTION_SHELL'' \<or> startswith ?kw ''*SECTION_BEAM''")
        case True
        note eq = parse_lines_section [OF hdr np True, of ls d]
        show ?thesis
        proof (cases "section_scan 1 ls (sections d)")
          case (Inl e)
          with eq Cons.prems(1) show ?thesis by simp
        next
          case (Inr secs)
          with section_scan_nonneg [OF Inr] Cons.prems(2)
          have "ids_nonneg (d\<lparr>sections := secs\<rparr>)" by (simp add: ids_nonneg_def)
          moreover have "parse_lines ls (d\<lparr>sections := secs\<rparr>) = Inr d'"
            using eq Inr Cons.prems(1) by simp
          ultimately show ?thesis using Cons.IH by blast
        qed
      next
        case False
        with np have "parse_lines (line # ls) d = parse_lines ls d"
          by (intro parse_lines_other) simp_all
        with Cons.prems(1) have "parse_lines ls d = Inr d'" by simp
        from Cons.IH [OF this Cons.prems(2)] show ?thesis .
      qed
    qed
  qed
qed

lemma link_sections_parts:
  "(pid, p') \<in> set (parts (link_sections d)) \<Longrightarrow>
   \<exists>p. (pid, p) \<in> set (parts d) \<and> secid p' = secid p"
proof -
  assume "(pid, p') \<in> set (parts (link_sections d))"
  then obtain q where q: "q \<in> set (parts d)"
    and e: "(pid, p') = (case q of (pid, p) \<Rightarrow>
               (pid, (case dict_get (sections d) (secid p) of None \<Rightarrow> p | Some v \<Rightarrow> p\<lparr>pvalue := v\<rparr>)))"
    by (auto simp: link_sections_def)
  obtain k p where kp: "q = (k, p)" by (cases q)
  from e kp have "pid = k" and "secid p' = secid p"
    by (simp_all split: option.splits)
  with q kp show ?thesis by blast
qed

lemma link_sections_sections: "sections (link_sections d) = sections d"
  by (simp add: link_sections_def)

lemma link_sections_nonneg: "ids_nonneg d \<Longrightarrow> ids_nonneg (link_sections d)"
  unfolding ids_nonneg_def link_sections_sections
  using link_sections_parts by fastforce

lemma ids_nonneg_empty: "ids_nonneg data_empty"
  by (simp add: ids_nonneg_def data_empty_def dict_keys_def)

lemma parse_deep_search_nonneg: "parse_deep_search ls = Inr d \<Longrightarrow> ids_nonneg d"
proof -
  assume a: "parse_deep_search ls = Inr d"
  then obtain d0 where d0: "parse_lines ls data_empty = Inr d0" and d: "d = link_sections d0"
    by (auto simp: parse_deep_search_def split: sum.splits)
  from parse_lines_nonneg [OF d0 ids_nonneg_empty] have "ids_nonneg d0" .
  with d show ?thesis by (simp add: link_sections_nonneg)
qed

lemma part_data_line_odd:
  "\<forall>p \<in> keep_pids k. is_odd p \<Longrightarrow> \<forall>p \<in> keep_pids (part_data_line look k). is_odd p"
  by (auto simp: part_data_line_def Let_def split: option.splits)

lemma part_lookahead_odd:
  "\<forall>p \<in> keep_pids k. is_odd p \<Longrightarrow> \<forall>p \<in> keep_pids (part_lookahead m ls k). is_odd p"
  by (induction m ls k rule: part_lookahead.induct) (auto simp: Let_def part_data_line_odd)

lemma pass1_odd:
  "\<forall>p \<in> keep_pids k. is_odd p \<Longrightarrow> \<forall>p \<in> keep_pids (pass1 ls k). is_odd p"
proof (induction ls arbitrary: k)
  case Nil
  then show ?case by simp
next
  case (Cons l ls)
  have "\<forall>p \<in> keep_pids (if startswith (strip l) ''*PART'' then part_lookahead 4 ls k else k). is_odd p"
    using Cons.prems part_lookahead_odd by simp
  from Cons.IH [OF this] show ?case by simp
qed

text \<open>
  Claim C9, as the code has it. No conversion function tests the sign of an identifier.
  What the diff parser records (the Part ids, the Section id of each Part, the keys of
  the sections map) is never negative, because \<^verbatim>\<open>isdigit\<close> admits digits only, but zero
  is admitted. The Part ids kept by the extraction are odd, so never zero, and may be
  negative.
\<close>

theorem recorded_ids:
  "(parse_deep_search ls = Inr d \<longrightarrow>
      (\<forall>(pid, p) \<in> set (parts d). 0 \<le> pid \<and> 0 \<le> secid p) \<and>
      (\<forall>sid \<in> set (dict_keys (sections d)). 0 \<le> sid)) \<and>
   (\<forall>pid \<in> keep_pids (pass1 ls' keep_empty). pid mod 2 = 1)"
proof (intro conjI impI)
  assume "parse_deep_search ls = Inr d"
  then have "ids_nonneg d" by (rule parse_deep_search_nonneg)
  then show "\<forall>(pid, p) \<in> set (parts d). 0 \<le> pid \<and> 0 \<le> secid p"
    and "\<forall>sid \<in> set (dict_keys (sections d)). 0 \<le> sid"
    by (simp_all add: ids_nonneg_def)
next
  have "\<forall>p \<in> keep_pids keep_empty. is_odd p" by (simp add: keep_empty_def)
  then have "\<forall>p \<in> keep_pids (pass1 ls' keep_empty). is_odd p" by (rule pass1_odd)
  then show "\<forall>pid \<in> keep_pids (pass1 ls' keep_empty). pid mod 2 = 1"
    by (auto simp: is_odd_def)
qed

theorem recorded_ids_witness:
  "parse_deep_search [''*PART'', ''0 7''] =
     Inr \<lparr>parts = [(0, \<lparr>name = ''Unknown'', secid = 7, pvalue = Fin 0\<rparr>)], sections = []\<rparr> \<and>
   list_all (\<lambda>(pid, p). 0 \<le> pid \<and> 0 \<le> secid p)
     [(0::int, \<lparr>name = ''Unknown'', secid = 7, pvalue = Fin 0\<rparr>)] \<and>
   - 3 \<in> keep_pids (pass1 [''*PART'', ''-3 0 -7''] keep_empty) \<and>
   (- 3 :: int) mod 2 = 1"
proof -
  have e: "parse_deep_search [''*PART'', ''0 7''] =
     Inr \<lparr>parts = [(0, \<lparr>name = ''Unknown'', secid = 7, pvalue = Fin 0\<rparr>)], sections = []\<rparr>"
    by code_simp
  have m: "- 3 \<in> keep_pids (pass1 [''*PART'', ''-3 0 -7''] keep_empty)"
    by code_simp
  from e m recorded_ids [of "[''*PART'', ''0 7'']"
      "\<lparr>parts = [(0, \<lparr>name = ''Unknown'', secid = 7, pvalue = Fin 0\<rparr>)], sections = []\<rparr>"
      "[''*PART'', ''-3 0 -7'']"]
  show ?thesis by (simp add: list_all_iff)
qed

text \<open>
  Claim C9 as stated fails: \<^verbatim>\<open>safe_int\<close> admits zero and negative identifiers, and
  \<^verbatim>\<open>get_numeric_line\<close> admits zero. The block \<^verbatim>\<open>*PART\<close>, \<^verbatim>\<open>-3 0 -7\<close> puts -3 into the kept
  Part ids, 0 into the kept Section ids and -7 into the kept Material ids; the block
  \<^verbatim>\<open>*PART\<close>, \<^verbatim>\<open>0 7\<close> gives the diff map the Part id 0.
\<close>

theorem positive_ids_counterexample:
  "safe_int ''0'' = Some 0 \<and>
   safe_int ''-3'' = Some (- 3) \<and>
   pass1 [''*PART'', ''-3 0 -7''] keep_empty =
     \<lparr>keep_pids = {- 3}, keep_sec_ids = {0}, keep_mat_ids = {- 7}\<rparr> \<and>
   get_numeric_line ''0 7'' = Inr (Some (0, 7)) \<and>
   parse_deep_search [''*PART'', ''0 7''] =
     Inr \<lparr>parts = [(0, \<lparr>name = ''Unknown'', secid = 7, pvalue = Fin 0\<rparr>)], sections = []\<rparr>"
  by code_simp

section \<open>Malformed tokens\<close>

lemma safe_int_absorbs: "safe_int_body v = Inl e \<Longrightarrow> safe_int v = None"
  by (simp add: safe_int_def try_except_def)

lemma safe_float_absorbs: "py_float s = Inl e \<Longrightarrow> safe_float s = Fin 0"
  by (simp add: safe_float_def try_except_def)

text \<open>
  Claim C8 at the token that consists of the superscript digit U+00B2. For Python it is a
  digit (\<^verbatim>\<open>isdigit\<close> is true) but no decimal literal (\<^verbatim>\<open>int\<close> raises \<^verbatim>\<open>ValueError\<close>).
  \<^verbatim>\<open>safe_int\<close> of \<^verbatim>\<open>s1.py\<close> absorbs the error and returns \<^verbatim>\<open>None\<close>. \<^verbatim>\<open>get_numeric_line\<close> of
  \<^verbatim>\<open>ss1.py\<close> guards \<^verbatim>\<open>int\<close> by \<^verbatim>\<open>isdigit\<close> alone: the error leaves \<^verbatim>\<open>parse_deep_search\<close>,
  and \<^verbatim>\<open>worker\<close> drops the whole file.
\<close>

theorem superscript_digit_aborts_parse:
  "isdigit [CHR 0xB2] \<and>
   py_int [CHR 0xB2] = Inl ValueError \<and>
   safe_int [CHR 0xB2] = None \<and>
   get_numeric_line (CHR 0xB2 # '' 10'') = Inl ValueError \<and>
   parse_deep_search [''*PART'', ''1 10'', ''*PART'', CHR 0xB2 # '' 10''] = Inl ValueError \<and>
   worker [''*PART'', ''1 10'', ''*PART'', CHR 0xB2 # '' 10''] = None \<and>
   worker [''*PART'', ''1 10'', ''*PART'', ''x 10''] =
     Some \<lparr>parts = [(1, \<lparr>name = ''Unknown'', secid = 10, pvalue = Fin 0\<rparr>)], sections = []\<rparr>"
  by code_simp

end
